theory Spec2Isabelle
  imports Main "HOL-Library.Sublist"
begin

section \<open>The upgrade command of the Nuxt command line (src/commands/upgrade.ts)\<close>

text \<open>
  The command is a pipeline of calls to collaborators: the package-manager detector, the
  readers of package.json, the prompt, the file-system helpers, the installer, the cleaner
  of build directories and the console. The model gives every answer of a collaborator in
  an environment record and returns the run as the list of the calls that have an effect,
  in the order in which the code makes them.

  JavaScript tests values for truthiness: an absent value and the empty string both count
  as false. The model keeps the difference between the two and tests them as the code
  does.
\<close>

subsection \<open>Data\<close>

text \<open>The \<^verbatim>\<open>lockFile\<close> field of a package manager: \<^verbatim>\<open>string | Array<string> | undefined\<close>.\<close>

datatype lockFiles = LockUndefined | LockString string | LockArray "string list"

record packageManager =
  pm_name :: string
  pm_lockFile :: lockFiles

text \<open>The fields of \<^verbatim>\<open>PackageJson\<close> that the command reads; each of them may be missing.\<close>

record PackageJson =
  version :: "string option"
  dependencies :: "(string \<rightharpoonup> string) option"
  devDependencies :: "(string \<rightharpoonup> string) option"

datatype dependencyType = Dependencies | DevDependencies

text \<open>
  What a select prompt resolves to: one of its options, a string, or a value that is not
  a string (a cancelled prompt).
\<close>

datatype promptAnswer = AnswerString string | AnswerOther

record channelSelection =
  npmPackages :: "string list"
  nuxtVersion :: string

text \<open>
  The calls the run makes, one constructor for each call site of the source. Console
  messages carry the values the source puts into the message.
\<close>

datatype event =
    Error_NoPackageManager string
  | ProcessExit nat
  | Info_PackageManager string string
  | Warn_NoNuxtVersion string
  | Info_CurrentVersion string
  | Prompt_Select "string list" string
  | Error_NoLockFile string
  | Prompt_Confirm string bool
  | Info_Recreating string
  | RmRecursive "string list"
  | TouchFile string
  | Info_Installing string string
  | AddDependency "string list" string packageManager bool
  | CleanupNuxtDirs string string
  | Info_UpgradedVersion string
  | Success_AlreadyLatest
  | Success_Upgraded string string
  | GitIdentifierLookup string
  | Info_Changelog string

text \<open>
  The answers of the collaborators. \<open>nuxtPackageBefore\<close> and \<open>nuxtPackageAfter\<close> are what
  \<^verbatim>\<open>readPackageJSON('nuxt', ...)\<close> gives at lines 106 and 172 (\<open>None\<close> when it throws),
  \<open>projectPackage\<close> is \<^verbatim>\<open>readPackageJSON(cwd).catch(() => null)\<close>, \<open>loadedBuildDir\<close> is the
  build directory of the loaded configuration (\<open>None\<close> when loading throws).
\<close>

record env =
  detectPackageManager :: "packageManager option"
  getPackageManagerVersion :: "string \<Rightarrow> string"
  nuxtPackageBefore :: "PackageJson option"
  nuxtPackageAfter :: "PackageJson option"
  projectPackage :: "PackageJson option"
  existsSync :: "string \<Rightarrow> bool"
  resolve :: "string \<Rightarrow> string \<Rightarrow> string"
  cyan :: "string \<Rightarrow> string"
  selectAnswer :: promptAnswer
  confirmAnswer :: bool
  loadedBuildDir :: "string option"
  nuxtVersionToGitIdentifier :: "string \<Rightarrow> string option"

text \<open>
  The arguments of the command: \<open>arg_cwd\<close> is the project root of line 91, already
  resolved; \<open>arg_force\<close> is absent unless \<^verbatim>\<open>--force\<close> or \<^verbatim>\<open>--no-force\<close> was given;
  \<open>arg_channel\<close> has the default \<^verbatim>\<open>stable\<close>.
\<close>

record args =
  arg_cwd :: string
  arg_force :: "bool option"
  arg_channel :: string

subsection \<open>JavaScript helpers\<close>

text \<open>Truthiness of a value of type \<^verbatim>\<open>string | undefined | null\<close>.\<close>

fun truthy :: "string option \<Rightarrow> bool" where
  "truthy None = False"
| "truthy (Some s) = (s \<noteq> [])"

text \<open>\<^verbatim>\<open>obj?.[key]\<close> on an object that may be missing.\<close>

definition optLookup :: "(string \<rightharpoonup> string) option \<Rightarrow> string \<Rightarrow> string option" where
  "optLookup obj key = (case obj of None \<Rightarrow> None | Some m \<Rightarrow> m key)"

text \<open>\<^verbatim>\<open>x || '[unknown]'\<close>.\<close>

definition orUnknown :: "string option \<Rightarrow> string" where
  "orUnknown v = (if truthy v then the v else ''[unknown]'')"

text \<open>\<^verbatim>\<open>Array.prototype.join\<close>.\<close>

fun join :: "string \<Rightarrow> string list \<Rightarrow> string" where
  "join sep [] = []"
| "join sep [x] = x"
| "join sep (x # y # ys) = x @ sep @ join sep (y # ys)"

text \<open>A value of type \<^verbatim>\<open>string | undefined\<close> inside a template literal.\<close>

definition template :: "string option \<Rightarrow> string" where
  "template v = (case v of None \<Rightarrow> ''undefined'' | Some s \<Rightarrow> s)"

subsection \<open>The functions of the source\<close>

text \<open>
  \<^verbatim>\<open>getNuxtVersion\<close> (lines 16-27). The first argument is the result of reading the
  package.json of the installed package; the function returns the version and what it
  writes to the console.
\<close>

definition getNuxtVersion :: "PackageJson option \<Rightarrow> string \<Rightarrow> string option \<times> event list" where
  "getNuxtVersion rd path =
     (case rd of
        None \<Rightarrow> (None, [])
      | Some pkg \<Rightarrow>
          (if truthy (version pkg) then (version pkg, [])
           else (None, [Warn_NoNuxtVersion path])))"

text \<open>\<^verbatim>\<open>checkNuxtDependencyType\<close> (lines 29-37).\<close>

definition checkNuxtDependencyType :: "PackageJson \<Rightarrow> dependencyType" where
  "checkNuxtDependencyType pkg =
     (if truthy (optLookup (dependencies pkg) ''nuxt'') then Dependencies
      else if truthy (optLookup (devDependencies pkg) ''nuxt'') then DevDependencies
      else Dependencies)"

text \<open>\<^verbatim>\<open>nuxtVersionTags\<close> (lines 39-42).\<close>

definition nuxtVersionTags :: "string \<rightharpoonup> string" where
  "nuxtVersionTags = [''3.x'' \<mapsto> ''3x'', ''4.x'' \<mapsto> ''latest'']"

text \<open>The options and the default of the prompt of lines 45-52.\<close>

definition nightlyOptions :: "string list" where
  "nightlyOptions = [''3.x'', ''4.x'']"

definition nightlyDefault :: string where
  "nightlyDefault = ''3.x''"

text \<open>\<^verbatim>\<open>getNightlyVersion\<close> (lines 44-59); \<open>result\<close> is the answer of the prompt.\<close>

definition getNightlyVersion :: "promptAnswer \<Rightarrow> string list \<Rightarrow> channelSelection \<times> event list" where
  "getNightlyVersion result packageNames =
     (let v = (case result of AnswerString s \<Rightarrow> s | AnswerOther \<Rightarrow> ''3.x'')
      in (\<lparr>npmPackages =
             map (\<lambda>p. p @ ''@npm:'' @ p @ ''-nightly@'' @ template (nuxtVersionTags v)) packageNames,
           nuxtVersion = v\<rparr>,
          [Prompt_Select nightlyOptions nightlyDefault]))"

text \<open>\<^verbatim>\<open>getRequiredNewVersion\<close> (lines 61-67).\<close>

definition getRequiredNewVersion ::
    "promptAnswer \<Rightarrow> string list \<Rightarrow> string \<Rightarrow> channelSelection \<times> event list" where
  "getRequiredNewVersion result packageNames ch =
     (if ch = ''nightly'' then getNightlyVersion result packageNames
      else (\<lparr>npmPackages = map (\<lambda>p. p @ ''@latest'') packageNames, nuxtVersion = ''3''\<rparr>, []))"

text \<open>\<^verbatim>\<open>normaliseLockFile\<close> (lines 205-218).\<close>

definition normaliseLockFile :: "env \<Rightarrow> string \<Rightarrow> lockFiles \<Rightarrow> string option \<times> event list" where
  "normaliseLockFile e cwd lockFiles =
     (let candidates = (case lockFiles of
                          LockString s \<Rightarrow> Some [s]
                        | LockArray xs \<Rightarrow> Some xs
                        | LockUndefined \<Rightarrow> None);
          found = (case candidates of
                     None \<Rightarrow> None
                   | Some xs \<Rightarrow> List.find (\<lambda>file. existsSync e (resolve e cwd file)) xs)
      in case found of
           None \<Rightarrow> (None, [Error_NoLockFile cwd])
         | Some file \<Rightarrow> (Some file, []))"

subsection \<open>The run, block by block\<close>

text \<open>Line 113.\<close>

definition corePackages :: "string list" where
  "corePackages = [''@nuxt/kit'', ''@nuxt/schema'', ''@nuxt/vite-builder'',
     ''@nuxt/webpack-builder'', ''@nuxt/rspack-builder'']"

text \<open>Line 112: the dependency class of nuxt, with its default when there is no manifest.\<close>

definition nuxtDependencyType :: "PackageJson option \<Rightarrow> dependencyType" where
  "nuxtDependencyType pkg =
     (case pkg of None \<Rightarrow> Dependencies | Some p \<Rightarrow> checkNuxtDependencyType p)"

text \<open>Line 115.\<close>

definition packagesToUpdate :: "PackageJson option \<Rightarrow> string list" where
  "packagesToUpdate pkg =
     (case pkg of
        None \<Rightarrow> []
      | Some p \<Rightarrow>
          filter (\<lambda>c. truthy (optLookup (dependencies p) c) \<or> truthy (optLookup (devDependencies p) c))
            corePackages)"

text \<open>Lines 121-126: what a forced upgrade removes.\<close>

definition toRemove :: "string option \<Rightarrow> string list" where
  "toRemove lockFile =
     [''node_modules''] @ (if truthy lockFile then [the lockFile] else [])"

text \<open>Lines 128-130.\<close>

definition forceRemovals :: "env \<Rightarrow> string list \<Rightarrow> string" where
  "forceRemovals e targets = join '' and '' (map (cyan e) targets)"

text \<open>Lines 131-139: the value of \<^verbatim>\<open>ctx.args.force\<close> after the block, and the prompt if any.\<close>

definition decideForce :: "env \<Rightarrow> bool option \<Rightarrow> string \<Rightarrow> bool \<times> event list" where
  "decideForce e flag removals =
     (case flag of
        None \<Rightarrow> (confirmAnswer e, [Prompt_Confirm removals True])
      | Some b \<Rightarrow> (b, []))"

text \<open>Lines 140-148.\<close>

definition applyForce :: "env \<Rightarrow> string \<Rightarrow> bool \<Rightarrow> string option \<Rightarrow> event list" where
  "applyForce e cwd decision lockFile =
     (if decision then
        [Info_Recreating (forceRemovals e (toRemove lockFile)),
         RmRecursive (map (\<lambda>file. resolve e cwd file) (toRemove lockFile))]
        @ (if truthy lockFile then [TouchFile (resolve e cwd (the lockFile))] else [])
      else [])"

text \<open>Lines 120-148 together.\<close>

definition forceInstall :: "env \<Rightarrow> args \<Rightarrow> lockFiles \<Rightarrow> event list" where
  "forceInstall e a lockFileCandidates =
     (let cwd = arg_cwd a;
          (lockFile, log1) = normaliseLockFile e cwd lockFileCandidates;
          (decision, log2) = decideForce e (arg_force a) (forceRemovals e (toRemove lockFile))
      in log1 @ log2 @ applyForce e cwd decision lockFile)"

text \<open>Lines 150-157.\<close>

definition install :: "env \<Rightarrow> args \<Rightarrow> packageManager \<Rightarrow> channelSelection \<Rightarrow> dependencyType \<Rightarrow> event list" where
  "install e a pm sel dt =
     [Info_Installing (if arg_channel a = ''nightly'' then ''nightly'' else ''latest stable'')
        (nuxtVersion sel),
      AddDependency (npmPackages sel) (arg_cwd a) pm
        (if dt = DevDependencies then True else False)]"

text \<open>Lines 159-169.\<close>

definition cleanup :: "env \<Rightarrow> args \<Rightarrow> event list" where
  "cleanup e a =
     (let buildDir = (case loadedBuildDir e of None \<Rightarrow> ''.nuxt'' | Some d \<Rightarrow> d)
      in [CleanupNuxtDirs (arg_cwd a) buildDir])"

text \<open>
  Lines 175-200: the report, from the two version labels. The calls of
  \<^verbatim>\<open>nuxtVersionToGitIdentifier\<close> are recorded, so that an attempt to derive the link is
  visible in the run.
\<close>

definition report :: "env \<Rightarrow> string \<Rightarrow> string \<Rightarrow> event list" where
  "report e currentVersion upgradedVersion =
     (if upgradedVersion = ''[unknown]'' then []
      else if upgradedVersion = currentVersion then [Success_AlreadyLatest]
      else
        [Success_Upgraded currentVersion upgradedVersion]
        @ (if currentVersion = ''[unknown]'' then []
           else
             (let commitA = nuxtVersionToGitIdentifier e currentVersion;
                  commitB = nuxtVersionToGitIdentifier e upgradedVersion
              in [GitIdentifierLookup currentVersion, GitIdentifierLookup upgradedVersion]
                 @ (if truthy commitA \<and> truthy commitB then
                      [Info_Changelog (''https://github.com/nuxt/nuxt/compare/''
                         @ the commitA @ ''...'' @ the commitB)]
                    else []))))"

text \<open>\<^verbatim>\<open>run\<close> (lines 90-201).\<close>

definition run :: "env \<Rightarrow> args \<Rightarrow> event list" where
  "run e a =
     (let cwd = arg_cwd a in
      case detectPackageManager e of
        None \<Rightarrow> [Error_NoPackageManager cwd, ProcessExit 1]
      | Some pm \<Rightarrow>
          (let packageManagerName = pm_name pm;
               lockFileCandidates = pm_lockFile pm;
               log1 = [Info_PackageManager packageManagerName
                         (getPackageManagerVersion e packageManagerName)];
               (v1, warn1) = getNuxtVersion (nuxtPackageBefore e) cwd;
               currentVersion = orUnknown v1;
               log2 = warn1 @ [Info_CurrentVersion currentVersion];
               pkg = projectPackage e;
               dt = nuxtDependencyType pkg;
               (sel, log3) = getRequiredNewVersion (selectAnswer e)
                               (''nuxt'' # packagesToUpdate pkg) (arg_channel a);
               log4 = forceInstall e a lockFileCandidates;
               log5 = install e a pm sel dt;
               log6 = cleanup e a;
               (v2, warn2) = getNuxtVersion (nuxtPackageAfter e) cwd;
               upgradedVersion = orUnknown v2;
               log7 = warn2 @ [Info_UpgradedVersion upgradedVersion]
           in log1 @ log2 @ log3 @ log4 @ log5 @ log6 @ log7
              @ report e currentVersion upgradedVersion))"

subsection \<open>The file system\<close>

text \<open>
  A file system maps an absolute path to what is there. A path lies under a directory
  when it continues the directory's path after a slash.
\<close>

datatype node = File string | Directory

type_synonym fs = "string \<rightharpoonup> node"

definition under :: "string \<Rightarrow> string \<Rightarrow> bool" where
  "under p q = (q = p \<or> prefix (p @ ''/'') q)"

text \<open>
  Modelled from the spec: \<^verbatim>\<open>rmRecursive\<close> of \<^verbatim>\<open>utils/fs\<close>, which is not among the sources.
  It removes every given path with all that lies under it, and a path that does not exist
  is left as it is, without an error.
\<close>

definition rmPath :: "string \<Rightarrow> fs \<Rightarrow> fs" where
  "rmPath p files = (\<lambda>q. if under p q then None else files q)"

definition rmRecursive :: "string list \<Rightarrow> fs \<Rightarrow> fs" where
  "rmRecursive paths files = fold rmPath paths files"

text \<open>
  Modelled from the spec: \<^verbatim>\<open>touchFile\<close> of \<^verbatim>\<open>utils/fs\<close>, which is not among the sources.
  It creates an empty file where there is none.
\<close>

definition touchFile :: "string \<Rightarrow> fs \<Rightarrow> fs" where
  "touchFile p files = (case files p of None \<Rightarrow> files(p \<mapsto> File []) | Some n \<Rightarrow> files)"

text \<open>The effect on the file system of the calls a forced upgrade makes before installing.\<close>

fun fsEffect :: "event \<Rightarrow> fs \<Rightarrow> fs" where
  "fsEffect (RmRecursive paths) files = rmRecursive paths files"
| "fsEffect (TouchFile p) files = touchFile p files"
| "fsEffect ev files = files"

definition fsEffects :: "event list \<Rightarrow> fs \<Rightarrow> fs" where
  "fsEffects evs files = fold fsEffect evs files"

text \<open>The calls that change the project: removal, touch, installation, cleaning.\<close>

fun isMutation :: "event \<Rightarrow> bool" where
  "isMutation (RmRecursive paths) = True"
| "isMutation (TouchFile p) = True"
| "isMutation (AddDependency pkgs cwd pm dev) = True"
| "isMutation (CleanupNuxtDirs cwd dir) = True"
| "isMutation ev = False"

definition mutations :: "event list \<Rightarrow> event list" where
  "mutations evs = filter isMutation evs"

definition isConfirm :: "event \<Rightarrow> bool" where
  "isConfirm ev = (case ev of Prompt_Confirm m d \<Rightarrow> True | _ \<Rightarrow> False)"

definition isInstall :: "event \<Rightarrow> bool" where
  "isInstall ev = (case ev of AddDependency pkgs cwd pm dev \<Rightarrow> True | _ \<Rightarrow> False)"

subsection \<open>Values of a run that the properties name\<close>

text \<open>The candidates of a descriptor as a sequence, as line 206 normalises them.\<close>

definition lockFileNames :: "lockFiles \<Rightarrow> string list" where
  "lockFileNames lockFiles =
     (case lockFiles of LockUndefined \<Rightarrow> [] | LockString s \<Rightarrow> [s] | LockArray xs \<Rightarrow> xs)"

text \<open>The constants \<^verbatim>\<open>currentVersion\<close> (line 106) and \<^verbatim>\<open>upgradedVersion\<close> (line 172).\<close>

definition currentVersion :: "env \<Rightarrow> args \<Rightarrow> string" where
  "currentVersion e a = orUnknown (fst (getNuxtVersion (nuxtPackageBefore e) (arg_cwd a)))"

definition upgradedVersion :: "env \<Rightarrow> args \<Rightarrow> string" where
  "upgradedVersion e a = orUnknown (fst (getNuxtVersion (nuxtPackageAfter e) (arg_cwd a)))"

text \<open>The result of line 118.\<close>

definition selection :: "env \<Rightarrow> args \<Rightarrow> channelSelection" where
  "selection e a =
     fst (getRequiredNewVersion (selectAnswer e)
            (''nuxt'' # packagesToUpdate (projectPackage e)) (arg_channel a))"

text \<open>The value of \<^verbatim>\<open>ctx.args.force\<close> at line 140.\<close>

definition forceDecision :: "env \<Rightarrow> args \<Rightarrow> bool" where
  "forceDecision e a = (case arg_force a of None \<Rightarrow> confirmAnswer e | Some b \<Rightarrow> b)"

subsection \<open>Example inputs\<close>

text \<open>
  A project at \<^verbatim>\<open>/app\<close> that uses bun, with both of bun's lock files present and nuxt
  declared as a development dependency. Paths are resolved by joining with a slash.
\<close>

definition joinPath :: "string \<Rightarrow> string \<Rightarrow> string" where
  "joinPath cwd file = cwd @ ''/'' @ file"

definition exampleFiles :: fs where
  "exampleFiles = [''/app/bun.lock'' \<mapsto> File ''lock'', ''/app/bun.lockb'' \<mapsto> File ''binary'',
     ''/app/node_modules'' \<mapsto> Directory, ''/app/node_modules/nuxt'' \<mapsto> Directory]"

definition examplePm :: packageManager where
  "examplePm = \<lparr>pm_name = ''bun'', pm_lockFile = LockArray [''bun.lock'', ''bun.lockb'']\<rparr>"

definition exampleEnv :: env where
  "exampleEnv = \<lparr>
     detectPackageManager = Some examplePm,
     getPackageManagerVersion = (\<lambda>n. ''1.1.0''),
     nuxtPackageBefore = Some \<lparr>version = Some ''3.9.0'', dependencies = None, devDependencies = None\<rparr>,
     nuxtPackageAfter = Some \<lparr>version = Some ''3.10.1'', dependencies = None, devDependencies = None\<rparr>,
     projectPackage = Some \<lparr>version = None, dependencies = None,
        devDependencies = Some [''nuxt'' \<mapsto> ''^3.9.0'']\<rparr>,
     existsSync = (\<lambda>p. exampleFiles p \<noteq> None),
     resolve = joinPath,
     cyan = (\<lambda>s. s),
     selectAnswer = AnswerString ''4.x'',
     confirmAnswer = True,
     loadedBuildDir = None,
     nuxtVersionToGitIdentifier = (\<lambda>v. Some (''v'' @ v))\<rparr>"

definition exampleArgs :: args where
  "exampleArgs = \<lparr>arg_cwd = ''/app'', arg_force = None, arg_channel = ''stable''\<rparr>"

text \<open>The same project with no lock file on disk, upgraded with \<^verbatim>\<open>--force\<close>.\<close>

definition noLockEnv :: env where
  "noLockEnv = exampleEnv\<lparr>existsSync := (\<lambda>p. False)\<rparr>"

definition forceArgs :: args where
  "forceArgs = exampleArgs\<lparr>arg_force := Some True\<rparr>"

text \<open>A directory in which no package manager is detected.\<close>

definition undetectedEnv :: env where
  "undetectedEnv = exampleEnv\<lparr>detectPackageManager := None\<rparr>"

text \<open>A manifest that declares nuxt as a development dependency with the empty range.\<close>

definition emptyRangeManifest :: PackageJson where
  "emptyRangeManifest = \<lparr>version = None, dependencies = None,
     devDependencies = Some [''nuxt'' \<mapsto> []]\<rparr>"

text \<open>The example project with that manifest.\<close>

definition emptyRangeEnv :: env where
  "emptyRangeEnv = exampleEnv\<lparr>projectPackage := Some emptyRangeManifest\<rparr>"

text \<open>
  A manifest that declares nuxt as a production dependency with the empty range and as a
  development dependency with a range, and the example project with it.
\<close>

definition emptyProdRangeManifest :: PackageJson where
  "emptyProdRangeManifest = \<lparr>version = None, dependencies = Some [''nuxt'' \<mapsto> []],
     devDependencies = Some [''nuxt'' \<mapsto> ''^3.0.0'']\<rparr>"

definition emptyProdRangeEnv :: env where
  "emptyProdRangeEnv = exampleEnv\<lparr>projectPackage := Some emptyProdRangeManifest\<rparr>"

section \<open>Properties\<close>

subsection \<open>Auxiliary facts\<close>

lemmas example_defs = exampleEnv_def exampleArgs_def examplePm_def exampleFiles_def joinPath_def
  noLockEnv_def forceArgs_def undetectedEnv_def

lemma fst_normaliseLockFile:
  "fst (normaliseLockFile e cwd c) =
     List.find (\<lambda>file. existsSync e (resolve e cwd file)) (lockFileNames c)"
  by (cases c) (simp_all add: normaliseLockFile_def lockFileNames_def split: option.splits)

lemma snd_normaliseLockFile:
  "snd (normaliseLockFile e cwd c) =
     (if fst (normaliseLockFile e cwd c) = None then [Error_NoLockFile cwd] else [])"
  by (simp add: normaliseLockFile_def Let_def split: option.splits)

text \<open>A run that passes the detection of the package manager is the sequence of its blocks.\<close>

lemma run_detected:
  assumes "detectPackageManager e = Some pm"
  shows "run e a =
     [Info_PackageManager (pm_name pm) (getPackageManagerVersion e (pm_name pm))]
     @ snd (getNuxtVersion (nuxtPackageBefore e) (arg_cwd a))
     @ [Info_CurrentVersion (currentVersion e a)]
     @ snd (getRequiredNewVersion (selectAnswer e)
              (''nuxt'' # packagesToUpdate (projectPackage e)) (arg_channel a))
     @ forceInstall e a (pm_lockFile pm)
     @ install e a pm (selection e a) (nuxtDependencyType (projectPackage e))
     @ cleanup e a
     @ snd (getNuxtVersion (nuxtPackageAfter e) (arg_cwd a))
     @ [Info_UpgradedVersion (upgradedVersion e a)]
     @ report e (currentVersion e a) (upgradedVersion e a)"
  using assms
  by (simp add: run_def Let_def case_prod_beta currentVersion_def upgradedVersion_def selection_def)

lemma forceInstall_eq:
  "forceInstall e a c =
     snd (normaliseLockFile e (arg_cwd a) c)
     @ (case arg_force a of None \<Rightarrow>
          [Prompt_Confirm (forceRemovals e (toRemove (fst (normaliseLockFile e (arg_cwd a) c)))) True]
        | Some b \<Rightarrow> [])
     @ applyForce e (arg_cwd a) (forceDecision e a) (fst (normaliseLockFile e (arg_cwd a) c))"
  by (simp add: forceInstall_def Let_def case_prod_beta decideForce_def forceDecision_def
      split: option.splits)

text \<open>What each block contributes to the mutations, the confirmations and the installations.\<close>

lemma filter_getNuxtVersion:
  "filter isMutation (snd (getNuxtVersion rd p)) = []"
  "filter isConfirm (snd (getNuxtVersion rd p)) = []"
  "filter isInstall (snd (getNuxtVersion rd p)) = []"
  by (simp_all add: getNuxtVersion_def isConfirm_def isInstall_def split: option.splits)

lemma filter_getRequiredNewVersion:
  "filter isMutation (snd (getRequiredNewVersion r ns ch)) = []"
  "filter isConfirm (snd (getRequiredNewVersion r ns ch)) = []"
  "filter isInstall (snd (getRequiredNewVersion r ns ch)) = []"
  by (simp_all add: getRequiredNewVersion_def getNightlyVersion_def Let_def isConfirm_def
      isInstall_def)

lemma filter_report:
  "filter isMutation (report e c u) = []"
  "filter isConfirm (report e c u) = []"
  "filter isInstall (report e c u) = []"
  by (simp_all add: report_def Let_def isConfirm_def isInstall_def)

lemma filter_install:
  "filter isMutation (install e a pm sel dt) =
     [AddDependency (npmPackages sel) (arg_cwd a) pm (dt = DevDependencies)]"
  "filter isConfirm (install e a pm sel dt) = []"
  "filter isInstall (install e a pm sel dt) =
     [AddDependency (npmPackages sel) (arg_cwd a) pm (dt = DevDependencies)]"
  by (simp_all add: install_def isConfirm_def isInstall_def)

lemma filter_cleanup:
  "filter isMutation (cleanup e a) =
     [CleanupNuxtDirs (arg_cwd a) (case loadedBuildDir e of None \<Rightarrow> ''.nuxt'' | Some d \<Rightarrow> d)]"
  "filter isConfirm (cleanup e a) = []"
  "filter isInstall (cleanup e a) = []"
  by (simp_all add: cleanup_def isConfirm_def isInstall_def)

lemma filter_forceInstall:
  "filter isMutation (forceInstall e a c) =
     (if forceDecision e a then
        [RmRecursive (map (resolve e (arg_cwd a)) (toRemove (fst (normaliseLockFile e (arg_cwd a) c))))]
        @ (if truthy (fst (normaliseLockFile e (arg_cwd a) c))
           then [TouchFile (resolve e (arg_cwd a) (the (fst (normaliseLockFile e (arg_cwd a) c))))]
           else [])
      else [])"
  "filter isConfirm (forceInstall e a c) =
     (case arg_force a of None \<Rightarrow>
          [Prompt_Confirm (forceRemovals e (toRemove (fst (normaliseLockFile e (arg_cwd a) c)))) True]
        | Some b \<Rightarrow> [])"
  "filter isInstall (forceInstall e a c) = []"
  by (simp_all add: forceInstall_eq snd_normaliseLockFile applyForce_def isConfirm_def isInstall_def
      split: option.splits)

lemma mutations_run:
  assumes "detectPackageManager e = Some pm"
  shows "mutations (run e a) =
     (if forceDecision e a then
        [RmRecursive (map (resolve e (arg_cwd a))
           (toRemove (fst (normaliseLockFile e (arg_cwd a) (pm_lockFile pm)))))]
        @ (if truthy (fst (normaliseLockFile e (arg_cwd a) (pm_lockFile pm)))
           then [TouchFile (resolve e (arg_cwd a)
                   (the (fst (normaliseLockFile e (arg_cwd a) (pm_lockFile pm)))))]
           else [])
      else [])
     @ [AddDependency (npmPackages (selection e a)) (arg_cwd a) pm
          (nuxtDependencyType (projectPackage e) = DevDependencies),
        CleanupNuxtDirs (arg_cwd a) (case loadedBuildDir e of None \<Rightarrow> ''.nuxt'' | Some d \<Rightarrow> d)]"
  by (simp add: run_detected [OF assms] mutations_def filter_getNuxtVersion
      filter_getRequiredNewVersion filter_report filter_install filter_cleanup filter_forceInstall)

text \<open>The file system after the removal, path by path.\<close>

lemma rmRecursive_apply:
  "rmRecursive paths files q = (if \<exists>p \<in> set paths. under p q then None else files q)"
  unfolding rmRecursive_def
  by (induction paths arbitrary: files) (auto simp: rmPath_def)

lemma fsEffects_append: "fsEffects (xs @ ys) files = fsEffects ys (fsEffects xs files)"
  by (simp add: fsEffects_def)

lemma fsEffects_normaliseLockFile: "fsEffects (snd (normaliseLockFile e cwd c)) files = files"
  by (simp add: snd_normaliseLockFile fsEffects_def)

lemma fsEffects_forceInstall:
  "fsEffects (forceInstall e a c) files =
     fsEffects (applyForce e (arg_cwd a) (forceDecision e a)
                  (fst (normaliseLockFile e (arg_cwd a) c))) files"
  by (simp add: forceInstall_eq fsEffects_append fsEffects_normaliseLockFile)
     (simp add: fsEffects_def split: option.splits)

lemma fsEffects_applyForce:
  "fsEffects (applyForce e cwd True lockFile) files =
     (if truthy lockFile
      then touchFile (resolve e cwd (the lockFile))
             (rmRecursive (map (resolve e cwd) (toRemove lockFile)) files)
      else rmRecursive (map (resolve e cwd) (toRemove lockFile)) files)"
  by (simp add: applyForce_def fsEffects_def)

lemma under_refl: "under p p"
  by (simp add: under_def)

text \<open>
  Away from empty version ranges the classification is the one by membership in the two
  dependency maps.
\<close>

lemma classify_nonempty_ranges:
  assumes "optLookup (dependencies pkg) ''nuxt'' \<noteq> Some []"
    and "optLookup (devDependencies pkg) ''nuxt'' \<noteq> Some []"
  shows "nuxtDependencyType None = Dependencies"
    and "nuxtDependencyType (Some pkg) = DevDependencies \<longleftrightarrow>
           optLookup (devDependencies pkg) ''nuxt'' \<noteq> None
           \<and> optLookup (dependencies pkg) ''nuxt'' = None"
    and "nuxtDependencyType (Some pkg) = Dependencies \<longleftrightarrow>
           optLookup (dependencies pkg) ''nuxt'' \<noteq> None
           \<or> optLookup (devDependencies pkg) ''nuxt'' = None"
  using assms
  by (cases "optLookup (dependencies pkg) ''nuxt''"; cases "optLookup (devDependencies pkg) ''nuxt''";
      simp add: nuxtDependencyType_def checkNuxtDependencyType_def)+

subsection \<open>C1: a run without a lock file\<close>

text \<open>
  C1 as stated, that a run in which no lock-file candidate exists fails before any
  mutation, does not hold. In the example project without a lock file, upgraded with
  \<^verbatim>\<open>--force\<close>, the locator finds nothing, and the run goes on: it removes
  \<^verbatim>\<open>node_modules\<close>, installs and cleans, and it does not exit.
\<close>

theorem run_without_lock_file_counterexample:
  "fst (normaliseLockFile noLockEnv ''/app'' (LockArray [''bun.lock'', ''bun.lockb''])) = None
   \<and> run noLockEnv forceArgs =
     [Info_PackageManager ''bun'' ''1.1.0'', Info_CurrentVersion ''3.9.0'',
      Error_NoLockFile ''/app'', Info_Recreating ''node_modules'',
      RmRecursive [''/app/node_modules''],
      Info_Installing ''latest stable'' ''3'',
      AddDependency [''nuxt@latest''] ''/app''
        \<lparr>pm_name = ''bun'', pm_lockFile = LockArray [''bun.lock'', ''bun.lockb'']\<rparr> True,
      CleanupNuxtDirs ''/app'' ''.nuxt'', Info_UpgradedVersion ''3.10.1'',
      Success_Upgraded ''3.9.0'' ''3.10.1'', GitIdentifierLookup ''3.9.0'',
      GitIdentifierLookup ''3.10.1'',
      Info_Changelog ''https://github.com/nuxt/nuxt/compare/v3.9.0...v3.10.1'']"
  by (simp add: noLockEnv_def forceArgs_def exampleEnv_def exampleArgs_def examplePm_def
      run_def normaliseLockFile_def getNuxtVersion_def orUnknown_def nuxtDependencyType_def
      checkNuxtDependencyType_def optLookup_def packagesToUpdate_def corePackages_def
      getRequiredNewVersion_def forceInstall_def decideForce_def applyForce_def toRemove_def
      forceRemovals_def install_def cleanup_def report_def joinPath_def Let_def)

text \<open>
  C1, amended: if a package manager is detected and none of its lock-file candidates exists
  under the project root, the run reports that no lock file was found and does not abort.
  No lock file is removed or touched; the dependency cache alone is removed, and only when
  the force decision is true; the installation and the cleaning take place.
\<close>

theorem run_without_lock_file:
  assumes "detectPackageManager e = Some pm"
    and "\<forall>f \<in> set (lockFileNames (pm_lockFile pm)). \<not> existsSync e (resolve e (arg_cwd a) f)"
  shows "Error_NoLockFile (arg_cwd a) \<in> set (run e a)
     \<and> ProcessExit 1 \<notin> set (run e a)
     \<and> mutations (run e a) =
         (if forceDecision e a then [RmRecursive [resolve e (arg_cwd a) ''node_modules'']] else [])
         @ [AddDependency (npmPackages (selection e a)) (arg_cwd a) pm
              (nuxtDependencyType (projectPackage e) = DevDependencies),
            CleanupNuxtDirs (arg_cwd a) (case loadedBuildDir e of None \<Rightarrow> ''.nuxt'' | Some d \<Rightarrow> d)]"
proof -
  have none: "fst (normaliseLockFile e (arg_cwd a) (pm_lockFile pm)) = None"
    using assms(2) by (simp add: fst_normaliseLockFile find_None_iff)
  have err: "Error_NoLockFile (arg_cwd a) \<in> set (forceInstall e a (pm_lockFile pm))"
    by (simp add: forceInstall_eq snd_normaliseLockFile none)
  have a: "Error_NoLockFile (arg_cwd a) \<in> set (run e a)"
    using err by (simp add: run_detected [OF assms(1)])
  have b: "ProcessExit 1 \<notin> set (run e a)"
    by (auto simp: run_detected [OF assms(1)] getNuxtVersion_def getRequiredNewVersion_def
        getNightlyVersion_def forceInstall_eq snd_normaliseLockFile applyForce_def install_def
        cleanup_def report_def Let_def split: option.splits if_splits)
  have c: "mutations (run e a) =
         (if forceDecision e a then [RmRecursive [resolve e (arg_cwd a) ''node_modules'']] else [])
         @ [AddDependency (npmPackages (selection e a)) (arg_cwd a) pm
              (nuxtDependencyType (projectPackage e) = DevDependencies),
            CleanupNuxtDirs (arg_cwd a) (case loadedBuildDir e of None \<Rightarrow> ''.nuxt'' | Some d \<Rightarrow> d)]"
    by (simp add: mutations_run [OF assms(1)] none toRemove_def)
  show ?thesis using a b c by simp
qed

text \<open>The amended C1 on the example project without a lock file.\<close>

theorem run_without_lock_file_witness:
  "detectPackageManager noLockEnv = Some examplePm
   \<and> lockFileNames (pm_lockFile examplePm) = [''bun.lock'', ''bun.lockb'']
   \<and> \<not> existsSync noLockEnv (resolve noLockEnv (arg_cwd forceArgs) ''bun.lock'')
   \<and> \<not> existsSync noLockEnv (resolve noLockEnv (arg_cwd forceArgs) ''bun.lockb'')
   \<and> Error_NoLockFile ''/app'' \<in> set (run noLockEnv forceArgs)
   \<and> ProcessExit 1 \<notin> set (run noLockEnv forceArgs)
   \<and> mutations (run noLockEnv forceArgs) =
       [RmRecursive [''/app/node_modules''],
        AddDependency [''nuxt@latest''] ''/app'' examplePm True,
        CleanupNuxtDirs ''/app'' ''.nuxt'']"
proof -
  have d: "detectPackageManager noLockEnv = Some examplePm"
    by (simp add: example_defs)
  have n: "\<forall>f \<in> set (lockFileNames (pm_lockFile examplePm)).
             \<not> existsSync noLockEnv (resolve noLockEnv (arg_cwd forceArgs) f)"
    by (simp add: example_defs)
  have v: "forceDecision noLockEnv forceArgs" "arg_cwd forceArgs = ''/app''"
    "resolve noLockEnv ''/app'' ''node_modules'' = ''/app/node_modules''"
    "npmPackages (selection noLockEnv forceArgs) = [''nuxt@latest'']"
    "nuxtDependencyType (projectPackage noLockEnv) = DevDependencies"
    "loadedBuildDir noLockEnv = None"
    by (simp_all add: example_defs forceDecision_def selection_def getRequiredNewVersion_def
        packagesToUpdate_def corePackages_def optLookup_def nuxtDependencyType_def
        checkNuxtDependencyType_def)
  from run_without_lock_file [OF d n] show ?thesis
    using d by (simp add: v) (simp add: example_defs lockFileNames_def)
qed

subsection \<open>C2: the report\<close>

text \<open>
  C2: a run that passes the detection ends with the report on the two version labels,
  right after the upgraded version is printed, and a version that could not be read has
  the label \<^verbatim>\<open>[unknown]\<close>. If the upgraded version is unknown, nothing more is reported.
  Otherwise, if the two labels are equal as strings, the report is "already up to date"
  alone, with no attempt at a changelog link. Otherwise the success report with both
  versions comes first, and the changelog link is printed exactly when the previous
  version is known and both labels map to an identifier; with an unknown previous version
  the success report stands alone.
\<close>

theorem report_step:
  "(detectPackageManager e = Some pm \<longrightarrow>
      (\<exists>before. run e a = before @ Info_UpgradedVersion (upgradedVersion e a)
                   # report e (currentVersion e a) (upgradedVersion e a)))
   \<and> (fst (getNuxtVersion (nuxtPackageAfter e) (arg_cwd a)) = None \<longrightarrow>
        upgradedVersion e a = ''[unknown]'')
   \<and> (upg = ''[unknown]'' \<longrightarrow> report e cur upg = [])
   \<and> (upg \<noteq> ''[unknown]'' \<and> upg = cur \<longrightarrow> report e cur upg = [Success_AlreadyLatest])
   \<and> (upg \<noteq> ''[unknown]'' \<and> upg \<noteq> cur \<longrightarrow>
        (\<exists>rest. report e cur upg = Success_Upgraded cur upg # rest)
        \<and> ((\<exists>url. Info_Changelog url \<in> set (report e cur upg)) \<longleftrightarrow>
             cur \<noteq> ''[unknown]'' \<and> truthy (nuxtVersionToGitIdentifier e cur)
               \<and> truthy (nuxtVersionToGitIdentifier e upg))
        \<and> (cur = ''[unknown]'' \<longrightarrow> report e cur upg = [Success_Upgraded cur upg]))"
proof -
  have r: "detectPackageManager e = Some pm \<longrightarrow>
      (\<exists>before. run e a = before @ Info_UpgradedVersion (upgradedVersion e a)
                   # report e (currentVersion e a) (upgradedVersion e a))"
  proof
    assume d: "detectPackageManager e = Some pm"
    show "\<exists>before. run e a = before @ Info_UpgradedVersion (upgradedVersion e a)
                   # report e (currentVersion e a) (upgradedVersion e a)"
      unfolding run_detected [OF d]
      by (rule exI [of _ "[Info_PackageManager (pm_name pm) (getPackageManagerVersion e (pm_name pm))]
     @ snd (getNuxtVersion (nuxtPackageBefore e) (arg_cwd a))
     @ [Info_CurrentVersion (currentVersion e a)]
     @ snd (getRequiredNewVersion (selectAnswer e)
              (''nuxt'' # packagesToUpdate (projectPackage e)) (arg_channel a))
     @ forceInstall e a (pm_lockFile pm)
     @ install e a pm (selection e a) (nuxtDependencyType (projectPackage e))
     @ cleanup e a
     @ snd (getNuxtVersion (nuxtPackageAfter e) (arg_cwd a))"]) simp
  qed
  have u: "fst (getNuxtVersion (nuxtPackageAfter e) (arg_cwd a)) = None \<longrightarrow>
        upgradedVersion e a = ''[unknown]''"
    by (simp add: upgradedVersion_def orUnknown_def)
  have rest: "(upg = ''[unknown]'' \<longrightarrow> report e cur upg = [])
   \<and> (upg \<noteq> ''[unknown]'' \<and> upg = cur \<longrightarrow> report e cur upg = [Success_AlreadyLatest])
   \<and> (upg \<noteq> ''[unknown]'' \<and> upg \<noteq> cur \<longrightarrow>
        (\<exists>rest. report e cur upg = Success_Upgraded cur upg # rest)
        \<and> ((\<exists>url. Info_Changelog url \<in> set (report e cur upg)) \<longleftrightarrow>
             cur \<noteq> ''[unknown]'' \<and> truthy (nuxtVersionToGitIdentifier e cur)
               \<and> truthy (nuxtVersionToGitIdentifier e upg))
        \<and> (cur = ''[unknown]'' \<longrightarrow> report e cur upg = [Success_Upgraded cur upg]))"
    by (simp add: report_def Let_def)
  show ?thesis using r u rest by blast
qed

text \<open>C2 on the example run, and on the three other cases of the report.\<close>

theorem report_step_witness:
  "detectPackageManager exampleEnv = Some examplePm
   \<and> upgradedVersion exampleEnv exampleArgs = ''3.10.1''
   \<and> currentVersion exampleEnv exampleArgs = ''3.9.0''
   \<and> (\<exists>before. run exampleEnv exampleArgs =
         before @ Info_UpgradedVersion ''3.10.1'' # report exampleEnv ''3.9.0'' ''3.10.1'')
   \<and> (\<exists>rest. report exampleEnv ''3.9.0'' ''3.10.1'' = Success_Upgraded ''3.9.0'' ''3.10.1'' # rest)
   \<and> (\<exists>url. Info_Changelog url \<in> set (report exampleEnv ''3.9.0'' ''3.10.1''))
   \<and> report exampleEnv ''3.10.0'' ''3.10.0'' = [Success_AlreadyLatest]
   \<and> report exampleEnv ''3.9.0'' ''[unknown]'' = []
   \<and> report exampleEnv ''[unknown]'' ''3.10.1'' = [Success_Upgraded ''[unknown]'' ''3.10.1'']"
proof -
  have d: "detectPackageManager exampleEnv = Some examplePm"
    by (simp add: example_defs)
  have v: "upgradedVersion exampleEnv exampleArgs = ''3.10.1''"
    "currentVersion exampleEnv exampleArgs = ''3.9.0''"
    by (simp_all add: example_defs upgradedVersion_def currentVersion_def getNuxtVersion_def
        orUnknown_def)
  have t: "truthy (nuxtVersionToGitIdentifier exampleEnv ''3.9.0'')"
    "truthy (nuxtVersionToGitIdentifier exampleEnv ''3.10.1'')"
    by (simp_all add: example_defs)
  from report_step [of exampleEnv examplePm exampleArgs "''3.10.1''" "''3.9.0''"]
  have a: "(\<exists>before. run exampleEnv exampleArgs =
         before @ Info_UpgradedVersion ''3.10.1'' # report exampleEnv ''3.9.0'' ''3.10.1'')
   \<and> (\<exists>rest. report exampleEnv ''3.9.0'' ''3.10.1'' = Success_Upgraded ''3.9.0'' ''3.10.1'' # rest)
   \<and> (\<exists>url. Info_Changelog url \<in> set (report exampleEnv ''3.9.0'' ''3.10.1''))"
    using d t by (simp add: v)
  from report_step [of exampleEnv examplePm exampleArgs "''3.10.0''" "''3.10.0''"]
  have b: "report exampleEnv ''3.10.0'' ''3.10.0'' = [Success_AlreadyLatest]"
    by simp
  from report_step [of exampleEnv examplePm exampleArgs "''[unknown]''" "''3.9.0''"]
  have c: "report exampleEnv ''3.9.0'' ''[unknown]'' = []"
    by simp
  from report_step [of exampleEnv examplePm exampleArgs "''3.10.1''" "''[unknown]''"]
  have e: "report exampleEnv ''[unknown]'' ''3.10.1'' = [Success_Upgraded ''[unknown]'' ''3.10.1'']"
    by simp
  show ?thesis using d v a b c e by simp
qed

subsection \<open>C3: what a forced upgrade does to the files\<close>

text \<open>
  C3: when the force decision is true, the targets of the removal are
  \<^verbatim>\<open>node_modules\<close>, always, and the lock file, only if one was located. After the block
  every target and all that lay under it is gone, whether or not it existed before, except
  that the lock file, when it is a target, is there again as an empty file. Removing
  targets of which none exists leaves the files as they were. The removal and the touch are
  the helpers as the specification describes them.
\<close>

theorem force_reset_files:
  assumes "forceDecision e a"
  shows "''node_modules'' \<in> set (toRemove (fst (normaliseLockFile e (arg_cwd a) c)))
     \<and> (\<forall>t \<in> set (toRemove (fst (normaliseLockFile e (arg_cwd a) c))).
           t = ''node_modules'' \<or> fst (normaliseLockFile e (arg_cwd a) c) = Some t)
     \<and> (\<forall>f. fst (normaliseLockFile e (arg_cwd a) c) = Some f \<and> f \<noteq> [] \<longrightarrow>
           f \<in> set (toRemove (fst (normaliseLockFile e (arg_cwd a) c))))
     \<and> (\<forall>t \<in> set (toRemove (fst (normaliseLockFile e (arg_cwd a) c))). \<forall>q.
           under (resolve e (arg_cwd a) t) q \<longrightarrow>
           fsEffects (forceInstall e a c) files q =
             (if truthy (fst (normaliseLockFile e (arg_cwd a) c))
                 \<and> q = resolve e (arg_cwd a) (the (fst (normaliseLockFile e (arg_cwd a) c)))
              then Some (File []) else None))
     \<and> ((\<forall>t \<in> set (toRemove (fst (normaliseLockFile e (arg_cwd a) c))). \<forall>q.
           under (resolve e (arg_cwd a) t) q \<longrightarrow> files q = None) \<longrightarrow>
         rmRecursive (map (resolve e (arg_cwd a))
           (toRemove (fst (normaliseLockFile e (arg_cwd a) c)))) files = files)"
proof -
  let ?lf = "fst (normaliseLockFile e (arg_cwd a) c)"
  let ?res = "resolve e (arg_cwd a)"
  have t1: "''node_modules'' \<in> set (toRemove ?lf)"
    by (simp add: toRemove_def)
  have t2: "\<forall>t \<in> set (toRemove ?lf). t = ''node_modules'' \<or> ?lf = Some t"
    by (cases ?lf) (auto simp: toRemove_def)
  have t2': "\<forall>f. ?lf = Some f \<and> f \<noteq> [] \<longrightarrow> f \<in> set (toRemove ?lf)"
    by (auto simp: toRemove_def)
  have eff: "fsEffects (forceInstall e a c) files =
     (if truthy ?lf then touchFile (?res (the ?lf)) (rmRecursive (map ?res (toRemove ?lf)) files)
      else rmRecursive (map ?res (toRemove ?lf)) files)"
    using assms by (simp add: fsEffects_forceInstall fsEffects_applyForce)
  have t3: "\<forall>t \<in> set (toRemove ?lf). \<forall>q. under (?res t) q \<longrightarrow>
           fsEffects (forceInstall e a c) files q =
             (if truthy ?lf \<and> q = ?res (the ?lf) then Some (File []) else None)"
  proof (intro ballI allI impI)
    fix t q
    assume t: "t \<in> set (toRemove ?lf)" and u: "under (?res t) q"
    have gone: "rmRecursive (map ?res (toRemove ?lf)) files q = None"
      using t u by (auto simp: rmRecursive_apply)
    have lp: "truthy ?lf \<Longrightarrow> rmRecursive (map ?res (toRemove ?lf)) files (?res (the ?lf)) = None"
      by (auto simp: rmRecursive_apply toRemove_def under_refl)
    show "fsEffects (forceInstall e a c) files q =
             (if truthy ?lf \<and> q = ?res (the ?lf) then Some (File []) else None)"
      using gone lp by (simp add: eff touchFile_def)
  qed
  have t4: "(\<forall>t \<in> set (toRemove ?lf). \<forall>q. under (?res t) q \<longrightarrow> files q = None) \<longrightarrow>
         rmRecursive (map ?res (toRemove ?lf)) files = files"
  proof
    assume h: "\<forall>t \<in> set (toRemove ?lf). \<forall>q. under (?res t) q \<longrightarrow> files q = None"
    show "rmRecursive (map ?res (toRemove ?lf)) files = files"
    proof
      fix q
      show "rmRecursive (map ?res (toRemove ?lf)) files q = files q"
        using h by (auto simp: rmRecursive_apply)
    qed
  qed
  show ?thesis using t1 t2 t2' t3 t4 by blast
qed

text \<open>
  C3 on the example project, where the prompt is answered with yes, and on an empty
  directory, where nothing of what is removed exists.
\<close>

theorem force_reset_files_witness:
  "forceDecision exampleEnv exampleArgs
   \<and> fst (normaliseLockFile exampleEnv ''/app'' (pm_lockFile examplePm)) = Some ''bun.lock''
   \<and> toRemove (Some ''bun.lock'') = [''node_modules'', ''bun.lock'']
   \<and> exampleFiles ''/app/bun.lock'' = Some (File ''lock'')
   \<and> exampleFiles ''/app/node_modules/nuxt'' = Some Directory
   \<and> fsEffects (forceInstall exampleEnv exampleArgs (pm_lockFile examplePm)) exampleFiles
        ''/app/bun.lock'' = Some (File [])
   \<and> fsEffects (forceInstall exampleEnv exampleArgs (pm_lockFile examplePm)) exampleFiles
        ''/app/node_modules'' = None
   \<and> fsEffects (forceInstall exampleEnv exampleArgs (pm_lockFile examplePm)) exampleFiles
        ''/app/node_modules/nuxt'' = None
   \<and> rmRecursive [''/app/node_modules'', ''/app/bun.lock''] Map.empty = Map.empty
   \<and> fsEffects (forceInstall exampleEnv exampleArgs (pm_lockFile examplePm)) Map.empty
        ''/app/bun.lock'' = Some (File [])"
proof -
  have d: "forceDecision exampleEnv exampleArgs"
    by (simp add: example_defs forceDecision_def)
  have cwd: "arg_cwd exampleArgs = ''/app''"
    by (simp add: example_defs)
  have lf: "fst (normaliseLockFile exampleEnv ''/app'' (pm_lockFile examplePm)) = Some ''bun.lock''"
    by (simp add: example_defs normaliseLockFile_def)
  have tr: "toRemove (Some ''bun.lock'') = [''node_modules'', ''bun.lock'']"
    by (simp add: toRemove_def)
  have res: "resolve exampleEnv ''/app'' ''bun.lock'' = ''/app/bun.lock''"
    "resolve exampleEnv ''/app'' ''node_modules'' = ''/app/node_modules''"
    by (simp_all add: example_defs)
  have u: "under ''/app/bun.lock'' ''/app/bun.lock''"
    "under ''/app/node_modules'' ''/app/node_modules''"
    "under ''/app/node_modules'' ''/app/node_modules/nuxt''"
    by (simp_all add: under_def)
  have ex: "exampleFiles ''/app/bun.lock'' = Some (File ''lock'')"
    "exampleFiles ''/app/node_modules/nuxt'' = Some Directory"
    by (simp_all add: example_defs)
  note th = force_reset_files [OF d, of "pm_lockFile examplePm", unfolded cwd lf tr]
  have a: "fsEffects (forceInstall exampleEnv exampleArgs (pm_lockFile examplePm)) files
        ''/app/bun.lock'' = Some (File [])" for files
    using th [of files] u by (simp add: res)
  have b: "fsEffects (forceInstall exampleEnv exampleArgs (pm_lockFile examplePm)) exampleFiles
        ''/app/node_modules'' = None"
    using th [of exampleFiles] u by (simp add: res)
  have c: "fsEffects (forceInstall exampleEnv exampleArgs (pm_lockFile examplePm)) exampleFiles
        ''/app/node_modules/nuxt'' = None"
    using th [of exampleFiles] u by (simp add: res)
  have e: "rmRecursive [''/app/node_modules'', ''/app/bun.lock''] Map.empty = Map.empty"
    using th [of Map.empty] by (simp add: res)
  show ?thesis using d lf tr ex a b c e by simp
qed

subsection \<open>C4: the confirmation of a forced upgrade\<close>

text \<open>
  C4 as stated, for every run, does not hold: where no package manager is detected the
  run exits before the confirmation, so it does not prompt although the flag is absent.
\<close>

theorem confirm_prompt_counterexample:
  "arg_force exampleArgs = None
   \<and> run undetectedEnv exampleArgs = [Error_NoPackageManager ''/app'', ProcessExit 1]"
  by (simp add: undetectedEnv_def exampleEnv_def exampleArgs_def run_def)

text \<open>
  C4, amended: in every run in which a package manager is detected, the confirmation is
  asked for if and only if the force flag is absent. With the flag given, its value is the
  decision and nothing is asked; with the flag absent, the confirmation is asked once,
  with the default yes, and its answer is the decision. The removal happens exactly when
  the decision is true.
\<close>

theorem confirm_prompt_iff_flag_absent:
  assumes "detectPackageManager e = Some pm"
  shows "filter isConfirm (run e a) =
           (case arg_force a of
              None \<Rightarrow> [Prompt_Confirm
                (forceRemovals e (toRemove (fst (normaliseLockFile e (arg_cwd a) (pm_lockFile pm))))) True]
            | Some b \<Rightarrow> [])
     \<and> forceDecision e a = (case arg_force a of None \<Rightarrow> confirmAnswer e | Some b \<Rightarrow> b)
     \<and> ((\<exists>paths. RmRecursive paths \<in> set (run e a)) \<longleftrightarrow> forceDecision e a)"
proof -
  have a: "filter isConfirm (run e a) =
           (case arg_force a of
              None \<Rightarrow> [Prompt_Confirm
                (forceRemovals e (toRemove (fst (normaliseLockFile e (arg_cwd a) (pm_lockFile pm))))) True]
            | Some b \<Rightarrow> [])"
    by (simp add: run_detected [OF assms] filter_getNuxtVersion
      filter_getRequiredNewVersion filter_report filter_install filter_cleanup filter_forceInstall
      isConfirm_def)
  have "(\<exists>paths. RmRecursive paths \<in> set (run e a)) \<longleftrightarrow>
        (\<exists>paths. RmRecursive paths \<in> set (mutations (run e a)))"
    by (simp add: mutations_def)
  also have "\<dots> \<longleftrightarrow> forceDecision e a"
    by (auto simp: mutations_run [OF assms])
  finally show ?thesis using a by (simp add: forceDecision_def)
qed

text \<open>The amended C4 on the example project, without the flag and with \<^verbatim>\<open>--force\<close>.\<close>

theorem confirm_prompt_iff_flag_absent_witness:
  "detectPackageManager exampleEnv = Some examplePm
   \<and> arg_force exampleArgs = None
   \<and> filter isConfirm (run exampleEnv exampleArgs) = [Prompt_Confirm ''node_modules and bun.lock'' True]
   \<and> arg_force forceArgs = Some True
   \<and> filter isConfirm (run exampleEnv forceArgs) = []
   \<and> forceDecision exampleEnv forceArgs"
proof -
  have d: "detectPackageManager exampleEnv = Some examplePm"
    by (simp add: example_defs)
  have lf: "fst (normaliseLockFile exampleEnv (arg_cwd exampleArgs) (pm_lockFile examplePm))
              = Some ''bun.lock''"
    by (simp add: example_defs normaliseLockFile_def)
  have fr: "forceRemovals exampleEnv (toRemove (Some ''bun.lock'')) = ''node_modules and bun.lock''"
    by (simp add: example_defs forceRemovals_def toRemove_def)
  have f: "arg_force exampleArgs = None" "arg_force forceArgs = Some True"
    by (simp_all add: example_defs)
  from confirm_prompt_iff_flag_absent [OF d, of exampleArgs]
  have a: "filter isConfirm (run exampleEnv exampleArgs) =
             [Prompt_Confirm ''node_modules and bun.lock'' True]"
    by (simp add: lf fr f)
  from confirm_prompt_iff_flag_absent [OF d, of forceArgs]
  have b: "filter isConfirm (run exampleEnv forceArgs) = []" "forceDecision exampleEnv forceArgs"
    by (simp_all add: f)
  show ?thesis using d f a b by simp
qed

subsection \<open>C5: the lock file in use\<close>

text \<open>
  C5: a single candidate is treated as the sequence of that one candidate. The locator
  returns a candidate exactly when it is the first one, in the order given, whose file
  exists under the project root, so that the earliest of several existing files wins; it
  returns nothing when the candidates are absent and when no candidate's file exists.
\<close>

theorem normaliseLockFile_first_existing:
  "fst (normaliseLockFile e cwd (LockString s)) = fst (normaliseLockFile e cwd (LockArray [s]))
   \<and> fst (normaliseLockFile e cwd LockUndefined) = None
   \<and> (fst (normaliseLockFile e cwd (LockArray xs)) = Some f \<longleftrightarrow>
        (\<exists>i<length xs. xs ! i = f \<and> existsSync e (resolve e cwd f)
            \<and> (\<forall>j<i. \<not> existsSync e (resolve e cwd (xs ! j)))))
   \<and> (fst (normaliseLockFile e cwd (LockArray xs)) = None \<longleftrightarrow>
        (\<forall>x\<in>set xs. \<not> existsSync e (resolve e cwd x)))"
proof -
  let ?P = "\<lambda>file. existsSync e (resolve e cwd file)"
  have c: "List.find ?P xs = Some f \<longleftrightarrow>
        (\<exists>i<length xs. xs ! i = f \<and> ?P f \<and> (\<forall>j<i. \<not> ?P (xs ! j)))"
    by (auto simp: find_Some_iff)
  have d: "List.find ?P xs = None \<longleftrightarrow> (\<forall>x\<in>set xs. \<not> ?P x)"
    by (auto simp: find_None_iff)
  show ?thesis using c d by (simp add: fst_normaliseLockFile lockFileNames_def)
qed

text \<open>C5 on the example project, in which both lock files of bun exist and no yarn lock.\<close>

theorem normaliseLockFile_first_existing_witness:
  "existsSync exampleEnv (resolve exampleEnv ''/app'' ''bun.lock'')
   \<and> existsSync exampleEnv (resolve exampleEnv ''/app'' ''bun.lockb'')
   \<and> fst (normaliseLockFile exampleEnv ''/app'' (LockArray [''bun.lock'', ''bun.lockb''])) = Some ''bun.lock''
   \<and> fst (normaliseLockFile exampleEnv ''/app'' (LockArray [''bun.lockb'', ''bun.lock''])) = Some ''bun.lockb''
   \<and> fst (normaliseLockFile exampleEnv ''/app'' (LockArray [''yarn.lock'', ''bun.lockb''])) = Some ''bun.lockb''
   \<and> fst (normaliseLockFile exampleEnv ''/app'' (LockArray [''yarn.lock''])) = None
   \<and> fst (normaliseLockFile exampleEnv ''/app'' (LockString ''yarn.lock'')) = None"
proof -
  have ex: "existsSync exampleEnv (resolve exampleEnv ''/app'' ''bun.lock'')"
    "existsSync exampleEnv (resolve exampleEnv ''/app'' ''bun.lockb'')"
    "\<not> existsSync exampleEnv (resolve exampleEnv ''/app'' ''yarn.lock'')"
    by (simp_all add: example_defs)
  have a: "fst (normaliseLockFile exampleEnv ''/app'' (LockArray [''bun.lock'', ''bun.lockb'']))
             = Some ''bun.lock''"
    using normaliseLockFile_first_existing
      [of exampleEnv "''/app''" "''yarn.lock''" "[''bun.lock'', ''bun.lockb'']" "''bun.lock''"] ex
    by auto
  have b: "fst (normaliseLockFile exampleEnv ''/app'' (LockArray [''bun.lockb'', ''bun.lock'']))
             = Some ''bun.lockb''"
    using normaliseLockFile_first_existing
      [of exampleEnv "''/app''" "''yarn.lock''" "[''bun.lockb'', ''bun.lock'']" "''bun.lockb''"] ex
    by auto
  have c: "fst (normaliseLockFile exampleEnv ''/app'' (LockArray [''yarn.lock'', ''bun.lockb'']))
             = Some ''bun.lockb''"
    using normaliseLockFile_first_existing
      [of exampleEnv "''/app''" "''yarn.lock''" "[''yarn.lock'', ''bun.lockb'']" "''bun.lockb''"] ex
    by (auto simp: less_Suc_eq)
  have e: "fst (normaliseLockFile exampleEnv ''/app'' (LockArray [''yarn.lock''])) = None"
    "fst (normaliseLockFile exampleEnv ''/app'' (LockString ''yarn.lock'')) = None"
    using normaliseLockFile_first_existing
      [of exampleEnv "''/app''" "''yarn.lock''" "[''yarn.lock'']" "''yarn.lock''"] ex
    by auto
  show ?thesis using ex a b c e by simp
qed

subsection \<open>C6: the dependency class\<close>

text \<open>
  C6 asks for \<^verbatim>\<open>devDependencies\<close> whenever nuxt appears in the development map and not in
  the production map. The classification tests the entries for truthiness, so an entry
  whose version range is the empty string counts as missing: for a manifest that declares
  nuxt in the development map alone, with the empty range, the result is
  \<^verbatim>\<open>dependencies\<close>.
\<close>

theorem classify_empty_range:
  "nuxtDependencyType (Some emptyRangeManifest) = Dependencies
   \<and> optLookup (devDependencies emptyRangeManifest) ''nuxt'' = Some []
   \<and> optLookup (dependencies emptyRangeManifest) ''nuxt'' = None"
  by (simp add: nuxtDependencyType_def checkNuxtDependencyType_def optLookup_def
      emptyRangeManifest_def)

subsection \<open>C7: the specifiers of a channel\<close>

text \<open>
  C7: for a channel other than nightly every base name becomes \<^verbatim>\<open>name@latest\<close>, with the
  version label 3 and no prompt. For the nightly channel every base name becomes
  \<^verbatim>\<open>name@npm:name-nightly@tag\<close>, the tag being the table's entry for the chosen line; the
  table has the two lines 3.x, with the tag 3x, and 4.x, with the tag latest; the prompt
  offers these two lines with the default 3.x.
\<close>

theorem getRequiredNewVersion_specifiers:
  "(ch \<noteq> ''nightly'' \<longrightarrow>
      getRequiredNewVersion r names ch =
        (\<lparr>npmPackages = map (\<lambda>n. n @ ''@latest'') names, nuxtVersion = ''3''\<rparr>, []))
   \<and> (nuxtVersionTags v = Some tag \<longrightarrow>
        npmPackages (fst (getRequiredNewVersion (AnswerString v) names ''nightly'')) =
          map (\<lambda>n. n @ ''@npm:'' @ n @ ''-nightly@'' @ tag) names)
   \<and> nuxtVersionTags ''3.x'' = Some ''3x''
   \<and> nuxtVersionTags ''4.x'' = Some ''latest''
   \<and> dom nuxtVersionTags = {''3.x'', ''4.x''}
   \<and> snd (getRequiredNewVersion r names ''nightly'') = [Prompt_Select [''3.x'', ''4.x''] ''3.x'']"
  by (auto simp: getRequiredNewVersion_def getNightlyVersion_def template_def nuxtVersionTags_def
      nightlyOptions_def nightlyDefault_def Let_def split: if_splits)

text \<open>C7 on the names nuxt and @nuxt/kit, for the stable channel and both nightly lines.\<close>

theorem getRequiredNewVersion_specifiers_witness:
  "''stable'' \<noteq> ''nightly''
   \<and> getRequiredNewVersion AnswerOther [''nuxt'', ''@nuxt/kit''] ''stable'' =
       (\<lparr>npmPackages = [''nuxt@latest'', ''@nuxt/kit@latest''], nuxtVersion = ''3''\<rparr>, [])
   \<and> npmPackages (fst (getRequiredNewVersion (AnswerString ''3.x'') [''nuxt'', ''@nuxt/kit''] ''nightly'')) =
       [''nuxt@npm:nuxt-nightly@3x'', ''@nuxt/kit@npm:@nuxt/kit-nightly@3x'']
   \<and> npmPackages (fst (getRequiredNewVersion (AnswerString ''4.x'') [''nuxt'', ''@nuxt/kit''] ''nightly'')) =
       [''nuxt@npm:nuxt-nightly@latest'', ''@nuxt/kit@npm:@nuxt/kit-nightly@latest'']"
proof -
  note th = getRequiredNewVersion_specifiers
  have a: "getRequiredNewVersion AnswerOther [''nuxt'', ''@nuxt/kit''] ''stable'' =
       (\<lparr>npmPackages = [''nuxt@latest'', ''@nuxt/kit@latest''], nuxtVersion = ''3''\<rparr>, [])"
    using th [of "''stable''" AnswerOther "[''nuxt'', ''@nuxt/kit'']" "''3.x''" "''3x''"] by simp
  have b: "npmPackages (fst (getRequiredNewVersion (AnswerString ''3.x'') [''nuxt'', ''@nuxt/kit''] ''nightly'')) =
       [''nuxt@npm:nuxt-nightly@3x'', ''@nuxt/kit@npm:@nuxt/kit-nightly@3x'']"
    using th [of "''stable''" AnswerOther "[''nuxt'', ''@nuxt/kit'']" "''3.x''" "''3x''"] by simp
  have c: "npmPackages (fst (getRequiredNewVersion (AnswerString ''4.x'') [''nuxt'', ''@nuxt/kit''] ''nightly'')) =
       [''nuxt@npm:nuxt-nightly@latest'', ''@nuxt/kit@npm:@nuxt/kit-nightly@latest'']"
    using th [of "''stable''" AnswerOther "[''nuxt'', ''@nuxt/kit'']" "''4.x''" "''latest''"] by simp
  show ?thesis using a b c by simp
qed

subsection \<open>C8: length and order of the specifiers\<close>

text \<open>
  C8: for every sequence of base names, every channel and every answer of the prompt,
  there are as many specifiers as base names, and the specifier at each position is the
  base name at that position followed by \<^verbatim>\<open>@\<close> and the rest: no name is dropped, doubled or
  moved.
\<close>

theorem getRequiredNewVersion_length_order:
  "length (npmPackages (fst (getRequiredNewVersion r names ch))) = length names
   \<and> list_all2 (\<lambda>n s. prefix (n @ ''@'') s) names
       (npmPackages (fst (getRequiredNewVersion r names ch)))"
proof (cases "ch = ''nightly''")
  case True
  then have "npmPackages (fst (getRequiredNewVersion r names ch)) =
      map (\<lambda>p. p @ ''@npm:'' @ p @ ''-nightly@''
             @ template (nuxtVersionTags (case r of AnswerString s \<Rightarrow> s | AnswerOther \<Rightarrow> ''3.x'')))
        names"
    by (simp add: getRequiredNewVersion_def getNightlyVersion_def Let_def)
  then show ?thesis
    by (simp add: list_all2_conv_all_nth)
next
  case False
  then have "npmPackages (fst (getRequiredNewVersion r names ch)) = map (\<lambda>p. p @ ''@latest'') names"
    by (simp add: getRequiredNewVersion_def)
  then show ?thesis
    by (simp add: list_all2_conv_all_nth)
qed

subsection \<open>C9: the class of the installation\<close>

text \<open>
  A run calls the installer once when a package manager is detected, and not at all
  otherwise; the development flag of that call is true if and only if the classification
  made before the upgrade gave \<^verbatim>\<open>devDependencies\<close>.
\<close>

lemma installs_of_run:
  "filter isInstall (run e a) =
     (case detectPackageManager e of
        None \<Rightarrow> []
      | Some pm \<Rightarrow> [AddDependency (npmPackages (selection e a)) (arg_cwd a) pm
                     (nuxtDependencyType (projectPackage e) = DevDependencies)])"
proof (cases "detectPackageManager e")
  case None
  then show ?thesis by (simp add: run_def isInstall_def)
next
  case (Some pm)
  then show ?thesis
    by (simp add: run_detected [OF Some] filter_getNuxtVersion
      filter_getRequiredNewVersion filter_report filter_install filter_cleanup filter_forceInstall
      isInstall_def)
qed

text \<open>
  C9 asks that the class of a dependency survives the upgrade: a development dependency is
  reinstalled as development and a production dependency as production. The installer's
  flag follows the classification, and the classification counts an entry with the empty
  version range as missing. In the example project with nuxt declared in the development
  map alone, with the empty range, the run installs nuxt with the development flag false,
  as a production dependency. With nuxt in the production map with the empty range and
  also in the development map, the run installs it with the development flag true.
\<close>

theorem installer_class_empty_range:
  "optLookup (devDependencies emptyRangeManifest) ''nuxt'' = Some []
   \<and> optLookup (dependencies emptyRangeManifest) ''nuxt'' = None
   \<and> filter isInstall (run emptyRangeEnv forceArgs) =
       [AddDependency [''nuxt@latest''] ''/app'' examplePm False]
   \<and> optLookup (dependencies emptyProdRangeManifest) ''nuxt'' = Some []
   \<and> filter isInstall (run emptyProdRangeEnv forceArgs) =
       [AddDependency [''nuxt@latest''] ''/app'' examplePm True]"
proof -
  have m: "optLookup (devDependencies emptyRangeManifest) ''nuxt'' = Some []"
    "optLookup (dependencies emptyRangeManifest) ''nuxt'' = None"
    "optLookup (dependencies emptyProdRangeManifest) ''nuxt'' = Some []"
    by (simp_all add: optLookup_def emptyRangeManifest_def emptyProdRangeManifest_def)
  have c: "nuxtDependencyType (Some emptyRangeManifest) = Dependencies"
    "nuxtDependencyType (Some emptyProdRangeManifest) = DevDependencies"
    by (simp_all add: nuxtDependencyType_def checkNuxtDependencyType_def optLookup_def
        emptyRangeManifest_def emptyProdRangeManifest_def)
  have s: "npmPackages (selection emptyRangeEnv forceArgs) = [''nuxt@latest'']"
    "npmPackages (selection emptyProdRangeEnv forceArgs) = [''nuxt@latest'']"
    by (simp_all add: selection_def getRequiredNewVersion_def packagesToUpdate_def
        corePackages_def optLookup_def emptyRangeEnv_def emptyProdRangeEnv_def
        emptyRangeManifest_def emptyProdRangeManifest_def example_defs)
  have e: "detectPackageManager emptyRangeEnv = Some examplePm"
    "detectPackageManager emptyProdRangeEnv = Some examplePm"
    "projectPackage emptyRangeEnv = Some emptyRangeManifest"
    "projectPackage emptyProdRangeEnv = Some emptyProdRangeManifest"
    "arg_cwd forceArgs = ''/app''"
    by (simp_all add: emptyRangeEnv_def emptyProdRangeEnv_def example_defs)
  have a: "filter isInstall (run emptyRangeEnv forceArgs) =
       [AddDependency [''nuxt@latest''] ''/app'' examplePm False]"
    by (simp add: installs_of_run e s c)
  have b: "filter isInstall (run emptyProdRangeEnv forceArgs) =
       [AddDependency [''nuxt@latest''] ''/app'' examplePm True]"
    by (simp add: installs_of_run e s c)
  show ?thesis using m a b by simp
qed

subsection \<open>C10: a prompt that gives no string\<close>

text \<open>
  C10: when the prompt for the nightly line gives a value that is not a string, the
  resolver goes on as if 3.x had been chosen, with no error: the specifiers carry the tag
  3x and the version label is 3.x. So for every answer the prompt can give, one of its
  options or no string, every specifier has the form \<^verbatim>\<open>name@npm:name-nightly@tag\<close> with a
  tag of the table.
\<close>

theorem getNightlyVersion_fallback:
  "getNightlyVersion AnswerOther names =
     (\<lparr>npmPackages = map (\<lambda>p. p @ ''@npm:'' @ p @ ''-nightly@3x'') names, nuxtVersion = ''3.x''\<rparr>,
      [Prompt_Select [''3.x'', ''4.x''] ''3.x''])
   \<and> getNightlyVersion AnswerOther names = getNightlyVersion (AnswerString ''3.x'') names
   \<and> (r = AnswerOther \<or> (\<exists>s \<in> set nightlyOptions. r = AnswerString s) \<longrightarrow>
        (\<exists>tag \<in> {''3x'', ''latest''}.
           npmPackages (fst (getNightlyVersion r names)) =
             map (\<lambda>p. p @ ''@npm:'' @ p @ ''-nightly@'' @ tag) names))"
  by (auto simp: getNightlyVersion_def nuxtVersionTags_def template_def nightlyOptions_def
      nightlyDefault_def Let_def)

text \<open>C10 on the names nuxt and @nuxt/kit with a cancelled prompt.\<close>

theorem getNightlyVersion_fallback_witness:
  "npmPackages (fst (getNightlyVersion AnswerOther [''nuxt'', ''@nuxt/kit''])) =
     [''nuxt@npm:nuxt-nightly@3x'', ''@nuxt/kit@npm:@nuxt/kit-nightly@3x'']
   \<and> nuxtVersion (fst (getNightlyVersion AnswerOther [''nuxt'', ''@nuxt/kit''])) = ''3.x''
   \<and> snd (getNightlyVersion AnswerOther [''nuxt'', ''@nuxt/kit'']) =
       [Prompt_Select [''3.x'', ''4.x''] ''3.x'']"
  using getNightlyVersion_fallback [of "[''nuxt'', ''@nuxt/kit'']" AnswerOther] by simp

end
